theory Spec2Isabelle
  imports Main "HOL-Library.Sublist"
begin

section \<open>Python exceptions\<close>

text \<open>
  The exceptions that can reach \<open>run_verification\<close> from a library call: an instance of
  some subclass of \<open>Exception\<close> (Playwright's \<open>Error\<close> and \<open>TimeoutError\<close>, the
  \<open>AssertionError\<close> of \<open>expect\<close>, an \<open>OSError\<close> of the file write, ...), given by its
  class name and its message, or a \<open>KeyboardInterrupt\<close>, which derives from
  \<open>BaseException\<close> only and can arrive while any call blocks.
\<close>

datatype pyexc = PyException string string | KeyboardInterrupt

text \<open>\<open>isinstance(e, Exception)\<close>: what the clause \<open>except Exception as e\<close> tests.\<close>

fun is_Exception :: "pyexc \<Rightarrow> bool" where
  "is_Exception (PyException cls msg) = True"
| "is_Exception KeyboardInterrupt = False"

text \<open>\<open>str(e)\<close>, what the f-string \<open>{e}\<close> formats.\<close>

fun str :: "pyexc \<Rightarrow> string" where
  "str (PyException cls msg) = msg"
| "str KeyboardInterrupt = []"


section \<open>The world outside the script\<close>

text \<open>
  Every call that leaves the script is recorded, in order, with the arguments the source
  passes. A keyword argument the source does not pass is \<open>None\<close>.
\<close>

datatype browser = Browser
datatype page = Page
datatype locator = GetByText string

datatype call =
    SyncPlaywrightEnter
  | Launch bool
  | NewPage
  | Goto string nat
  | ToBeVisible locator nat
  | Print string
  | Screenshot string "bool option"
  | Close
  | SyncPlaywrightExit

type_synonym bytes = "nat list"

text \<open>
  Beside the record of calls, the world holds the files and directories on disk and
  whether the browser process of this session runs.
\<close>

record world =
  calls :: "call list"
  files :: "string \<rightharpoonup> bytes"
  dirs :: "string set"
  browser_running :: bool

text \<open>
  What the browser-automation library does in one run: for each call of the script, whether
  it returns or raises, and the image a successful capture yields.
\<close>

record outcomes =
  launch_res :: "pyexc option"
  new_page_res :: "pyexc option"
  goto_res :: "pyexc option"
  to_be_visible_res :: "pyexc option"
  screenshot_res :: "pyexc + bytes"
  close_res :: "pyexc option"


section \<open>Statements: sequencing, try / except / finally, with\<close>

text \<open>A statement runs in a world and either raises (\<open>Inl\<close>) or yields a value.\<close>

type_synonym 'a prog = "world \<Rightarrow> (pyexc + 'a) \<times> world"

definition ret :: "'a \<Rightarrow> 'a prog" where
  "ret v = (\<lambda>w. (Inr v, w))"

definition seq :: "'a prog \<Rightarrow> ('a \<Rightarrow> 'b prog) \<Rightarrow> 'b prog" where
  "seq m f = (\<lambda>w. case m w of
                  (Inl e, w') \<Rightarrow> (Inl e, w')
                | (Inr v, w') \<Rightarrow> f v w')"

text \<open>
  \<open>try: body  except Exception as e: handler  finally: fin\<close>. The handler runs for an
  instance of \<open>Exception\<close> only; \<open>fin\<close> runs on every way out of the body and the handler;
  an exception raised by \<open>fin\<close> replaces the pending one.
\<close>

definition try_except_finally ::
  "unit prog \<Rightarrow> (pyexc \<Rightarrow> unit prog) \<Rightarrow> unit prog \<Rightarrow> unit prog" where
  "try_except_finally body handler fin = (\<lambda>w.
     case body w of (r1, w1) \<Rightarrow>
     case (case r1 of
             Inl e \<Rightarrow> if is_Exception e then handler e w1 else (Inl e, w1)
           | Inr v \<Rightarrow> (Inr v, w1)) of (r2, w2) \<Rightarrow>
     case fin w2 of
       (Inl e, w3) \<Rightarrow> (Inl e, w3)
     | (Inr v, w3) \<Rightarrow> (r2, w3))"

definition lib_call :: "call \<Rightarrow> pyexc option \<Rightarrow> 'a \<Rightarrow> 'a prog" where
  "lib_call c r v = (\<lambda>w.
     (case r of Some e \<Rightarrow> Inl e | None \<Rightarrow> Inr v, w\<lparr>calls := calls w @ [c]\<rparr>))"

text \<open>
  Modelled from the spec: the external browser process, which the library spawns and
  terminates outside this repository. A launch that returns has spawned it. A
  \<open>browser.close()\<close> that returns has terminated it, and so has leaving the
  \<open>sync_playwright\<close> scope, a scoped acquisition with guaranteed release: the browser
  process is terminated when the scope is left, whether the body succeeded or failed.
\<close>

definition spawn_browser :: "world \<Rightarrow> world" where
  "spawn_browser w = w\<lparr>browser_running := True\<rparr>"

definition terminate_browser :: "world \<Rightarrow> world" where
  "terminate_browser w = w\<lparr>browser_running := False\<rparr>"

text \<open>
  \<open>with sync_playwright() as p: body\<close>. The context is entered, the body runs, and the
  context is left on every way out of the body; leaving it does not swallow an exception
  of the body. Entering and leaving are taken to return.
\<close>

definition with_sync_playwright :: "'a prog \<Rightarrow> 'a prog" where
  "with_sync_playwright body = (\<lambda>w.
     case body (w\<lparr>calls := calls w @ [SyncPlaywrightEnter]\<rparr>) of
       (r, w') \<Rightarrow> (r, terminate_browser (w'\<lparr>calls := calls w' @ [SyncPlaywrightExit]\<rparr>)))"


section \<open>The calls of the script\<close>

text \<open>
  \<open>print\<close> adds a line to the standard output and is taken to return. Each call of the
  library returns or raises as the run's outcomes say. \<open>Launch\<close> carries the keyword
  \<open>headless\<close>, \<open>Goto\<close> the address and the \<open>timeout\<close> in milliseconds, \<open>ToBeVisible\<close>
  the locator built by \<open>get_by_text\<close> and the \<open>timeout\<close> in milliseconds.
\<close>

definition print :: "string \<Rightarrow> unit prog" where
  "print s = lib_call (Print s) None ()"

text \<open>
  A launch or a \<open>browser.close()\<close> that raises leaves the browser process as it was.
\<close>

definition launch :: "outcomes \<Rightarrow> bool \<Rightarrow> browser prog" where
  "launch env headless = (\<lambda>w.
     case launch_res env of
       Some e \<Rightarrow> (Inl e, w\<lparr>calls := calls w @ [Launch headless]\<rparr>)
     | None \<Rightarrow> (Inr Browser, spawn_browser (w\<lparr>calls := calls w @ [Launch headless]\<rparr>)))"

definition new_page :: "outcomes \<Rightarrow> browser \<Rightarrow> page prog" where
  "new_page env b = lib_call NewPage (new_page_res env) Page"

definition goto :: "outcomes \<Rightarrow> page \<Rightarrow> string \<Rightarrow> nat \<Rightarrow> unit prog" where
  "goto env p url timeout = lib_call (Goto url timeout) (goto_res env) ()"

definition get_by_text :: "page \<Rightarrow> string \<Rightarrow> locator" where
  "get_by_text p text = GetByText text"

definition expect_to_be_visible :: "outcomes \<Rightarrow> locator \<Rightarrow> nat \<Rightarrow> unit prog" where
  "expect_to_be_visible env l timeout =
     lib_call (ToBeVisible l timeout) (to_be_visible_res env) ()"

definition close :: "outcomes \<Rightarrow> browser \<Rightarrow> unit prog" where
  "close env b = (\<lambda>w.
     case close_res env of
       Some e \<Rightarrow> (Inl e, w\<lparr>calls := calls w @ [Close]\<rparr>)
     | None \<Rightarrow> (Inr (), terminate_browser (w\<lparr>calls := calls w @ [Close]\<rparr>)))"

text \<open>The directories above a relative or absolute path, outermost first.\<close>

definition parent_dirs :: "string \<Rightarrow> string list" where
  "parent_dirs p = map (\<lambda>i. take i p) (filter (\<lambda>i. p ! i = CHR ''/'') [1..<length p])"

text \<open>
  Modelled from the spec: the file write inside the library's screenshot call, which is
  not part of this repository. The image is stored at the path, in place of a file already
  there, and the parent directories of the path exist afterwards. A capture that raises
  is taken to raise before anything is written.
\<close>

definition write_file :: "string \<Rightarrow> bytes \<Rightarrow> world \<Rightarrow> world" where
  "write_file path img w =
     w\<lparr>files := (files w)(path \<mapsto> img), dirs := dirs w \<union> set (parent_dirs path)\<rparr>"

definition screenshot :: "outcomes \<Rightarrow> page \<Rightarrow> string \<Rightarrow> bool option \<Rightarrow> unit prog" where
  "screenshot env p path full_page = (\<lambda>w.
     case screenshot_res env of
       Inl e \<Rightarrow> (Inl e, w\<lparr>calls := calls w @ [Screenshot path full_page]\<rparr>)
     | Inr img \<Rightarrow>
         (Inr (), write_file path img (w\<lparr>calls := calls w @ [Screenshot path full_page]\<rparr>)))"

text \<open>
  Playwright's \<open>full_page\<close> defaults to false: without the argument the capture is of the
  viewport.
\<close>

fun captures_full_page :: "call \<Rightarrow> bool" where
  "captures_full_page (Screenshot path full_page) = (full_page = Some True)"
| "captures_full_page c = False"


section \<open>The script\<close>

definition run_verification :: "outcomes \<Rightarrow> unit prog" where
  "run_verification env =
     with_sync_playwright
       (seq (launch env True) (\<lambda>browser.
        seq (new_page env browser) (\<lambda>page.
        try_except_finally
          (seq (goto env page ''http://localhost:8081'' 60000) (\<lambda>_.
           seq (expect_to_be_visible env (get_by_text page ''Nadar'') 30000) (\<lambda>_.
           seq (print ''Capturing Landing Screen...'') (\<lambda>_.
           seq (screenshot env page ''jules-scratch/verification/landing_screen.png'' None) (\<lambda>_.
           print ''Landing Screen captured.'')))))
          (\<lambda>e. print (''An error occurred during Playwright execution: '' @ str e))
          (seq (close env browser) (\<lambda>_.
           print ''Browser closed.'')))))"

text \<open>\<open>if __name__ == "__main__": run_verification()\<close>\<close>

definition script :: "string \<Rightarrow> outcomes \<Rightarrow> unit prog" where
  "script name env = (if name = ''__main__'' then run_verification env else ret ())"

text \<open>
  The exit status of the interpreter: 0 when the module runs to its end, 1 after an
  uncaught \<open>Exception\<close>, 130 after an uncaught \<open>KeyboardInterrupt\<close>.
\<close>

definition exit_status :: "(pyexc + unit) \<times> world \<Rightarrow> nat" where
  "exit_status rw = (case fst rw of
                       Inr v \<Rightarrow> 0
                     | Inl e \<Rightarrow> if is_Exception e then 1 else 130)"


section \<open>Observations of a run\<close>

text \<open>The calls a run adds to the record, and what it prints.\<close>

definition run_calls :: "outcomes \<Rightarrow> world \<Rightarrow> call list" where
  "run_calls env w = drop (length (calls w)) (calls (snd (run_verification env w)))"

fun printed :: "call list \<Rightarrow> string list" where
  "printed [] = []"
| "printed (Print s # cs) = s # printed cs"
| "printed (c # cs) = printed cs"

definition stdout :: "outcomes \<Rightarrow> world \<Rightarrow> string list" where
  "stdout env w = printed (run_calls env w)"

definition raised :: "outcomes \<Rightarrow> world \<Rightarrow> pyexc option" where
  "raised env w = (case fst (run_verification env w) of Inl e \<Rightarrow> Some e | Inr v \<Rightarrow> None)"

definition error_message :: "pyexc \<Rightarrow> string" where
  "error_message e = ''An error occurred during Playwright execution: '' @ str e"

definition screenshot_path :: string where
  "screenshot_path = ''jules-scratch/verification/landing_screen.png''"

text \<open>The calls that are steps of the verification, as opposed to printing and cleanup.\<close>

fun is_step :: "call \<Rightarrow> bool" where
  "is_step (Launch h) = True"
| "is_step NewPage = True"
| "is_step (Goto u t) = True"
| "is_step (ToBeVisible l t) = True"
| "is_step (Screenshot p f) = True"
| "is_step c = False"

fun is_screenshot :: "call \<Rightarrow> bool" where
  "is_screenshot (Screenshot p f) = True"
| "is_screenshot c = False"

text \<open>The line the handler prints begins with the handler's fixed words.\<close>

fun is_error_print :: "call \<Rightarrow> bool" where
  "is_error_print (Print s) = prefix ''An error occurred during Playwright execution: '' s"
| "is_error_print c = False"


text \<open>
  The five steps in the order of the source, each with the arguments the source passes:
  launch headless, open a page, navigate to the fixed address, wait for the text, capture
  to the fixed path.
\<close>

definition fixed_steps :: "call list" where
  "fixed_steps =
     [Launch True, NewPage, Goto ''http://localhost:8081'' 60000,
      ToBeVisible (GetByText ''Nadar'') 30000,
      Screenshot ''jules-scratch/verification/landing_screen.png'' None]"


section \<open>Concrete runs\<close>

definition initial_world :: world where
  "initial_world = \<lparr>calls = [], files = Map.empty, dirs = {}, browser_running = False\<rparr>"

definition png :: bytes where
  "png = [137, 80, 78, 71, 13, 10, 26, 10]"

text \<open>The server is up and renders the marker.\<close>

definition happy_path :: outcomes where
  "happy_path = \<lparr>launch_res = None, new_page_res = None, goto_res = None,
     to_be_visible_res = None, screenshot_res = Inr png, close_res = None\<rparr>"

text \<open>The browser binary is not installed: the launch raises.\<close>

definition chromium_missing :: outcomes where
  "chromium_missing =
     \<lparr>launch_res = Some (PyException ''Error'' ''Executable does not exist''),
      new_page_res = None, goto_res = None,
      to_be_visible_res = None, screenshot_res = Inr png, close_res = None\<rparr>"

text \<open>The browser starts and then refuses the new page.\<close>

definition page_not_opened :: outcomes where
  "page_not_opened =
     \<lparr>launch_res = None, new_page_res = Some (PyException ''Error'' ''Target closed''),
      goto_res = None,
      to_be_visible_res = None, screenshot_res = Inr png, close_res = None\<rparr>"

text \<open>The user interrupts the process while the navigation waits.\<close>

definition interrupted :: outcomes where
  "interrupted =
     \<lparr>launch_res = None, new_page_res = None, goto_res = Some KeyboardInterrupt,
      to_be_visible_res = None, screenshot_res = Inr png, close_res = None\<rparr>"

text \<open>Nothing listens on port 8081.\<close>

definition server_down :: outcomes where
  "server_down =
     \<lparr>launch_res = None, new_page_res = None,
      goto_res = Some (PyException ''Error'' ''net::ERR_CONNECTION_REFUSED''),
      to_be_visible_res = None, screenshot_res = Inr png, close_res = None\<rparr>"


text \<open>The server answers and never renders the marker.\<close>

definition marker_missing :: outcomes where
  "marker_missing =
     \<lparr>launch_res = None, new_page_res = None, goto_res = None,
      to_be_visible_res
        = Some (PyException ''AssertionError'' ''Locator expected to be visible''),
      screenshot_res = Inr png, close_res = None\<rparr>"

text \<open>The marker is visible and the capture raises.\<close>

definition capture_fails :: outcomes where
  "capture_fails =
     \<lparr>launch_res = None, new_page_res = None, goto_res = None, to_be_visible_res = None,
      screenshot_res = Inl (PyException ''Error'' ''Page.screenshot: Target crashed''),
      close_res = None\<rparr>"

text \<open>A second successful run, whose capture yields another image.\<close>

definition png2 :: bytes where
  "png2 = [137, 80, 78, 71, 13, 10, 26, 10, 0]"

definition happy_path_again :: outcomes where
  "happy_path_again = \<lparr>launch_res = None, new_page_res = None, goto_res = None,
     to_be_visible_res = None, screenshot_res = Inr png2, close_res = None\<rparr>"




section \<open>The paths of a run\<close>

text \<open>
  The first call that raises decides the path. Each lemma gives the result and the final
  world of one path in full.
\<close>

lemmas prim_defs = run_verification_def with_sync_playwright_def seq_def
  try_except_finally_def lib_call_def print_def launch_def new_page_def goto_def
  get_by_text_def expect_to_be_visible_def close_def screenshot_def
  spawn_browser_def terminate_browser_def

lemmas obs_defs = run_calls_def stdout_def raised_def

lemma run_launch_raises:
  "launch_res env = Some e \<Longrightarrow>
   run_verification env w =
     (Inl e,
      w\<lparr>calls := calls w @ [SyncPlaywrightEnter, Launch True, SyncPlaywrightExit],
        browser_running := False\<rparr>)"
  by (simp add: prim_defs)

lemma run_new_page_raises:
  "launch_res env = None \<Longrightarrow> new_page_res env = Some e \<Longrightarrow>
   run_verification env w =
     (Inl e,
      w\<lparr>calls := calls w @ [SyncPlaywrightEnter, Launch True, NewPage, SyncPlaywrightExit],
        browser_running := False\<rparr>)"
  by (simp add: prim_defs)

lemma run_goto_raises:
  "launch_res env = None \<Longrightarrow> new_page_res env = None \<Longrightarrow> goto_res env = Some e \<Longrightarrow>
   run_verification env w =
     (case close_res env of Some e' \<Rightarrow> Inl e'
      | None \<Rightarrow> if is_Exception e then Inr () else Inl e,
      w\<lparr>calls := calls w @
          [SyncPlaywrightEnter, Launch True, NewPage, Goto ''http://localhost:8081'' 60000] @
          (if is_Exception e then [Print (error_message e)] else []) @
          [Close] @ (if close_res env = None then [Print ''Browser closed.''] else []) @
          [SyncPlaywrightExit],
        browser_running := False\<rparr>)"
  by (simp add: prim_defs error_message_def split: option.splits)

lemma run_to_be_visible_raises:
  "launch_res env = None \<Longrightarrow> new_page_res env = None \<Longrightarrow> goto_res env = None \<Longrightarrow>
   to_be_visible_res env = Some e \<Longrightarrow>
   run_verification env w =
     (case close_res env of Some e' \<Rightarrow> Inl e'
      | None \<Rightarrow> if is_Exception e then Inr () else Inl e,
      w\<lparr>calls := calls w @
          [SyncPlaywrightEnter, Launch True, NewPage, Goto ''http://localhost:8081'' 60000,
           ToBeVisible (GetByText ''Nadar'') 30000] @
          (if is_Exception e then [Print (error_message e)] else []) @
          [Close] @ (if close_res env = None then [Print ''Browser closed.''] else []) @
          [SyncPlaywrightExit],
        browser_running := False\<rparr>)"
  by (simp add: prim_defs error_message_def split: option.splits)

lemma run_screenshot_raises:
  "launch_res env = None \<Longrightarrow> new_page_res env = None \<Longrightarrow> goto_res env = None \<Longrightarrow>
   to_be_visible_res env = None \<Longrightarrow> screenshot_res env = Inl e \<Longrightarrow>
   run_verification env w =
     (case close_res env of Some e' \<Rightarrow> Inl e'
      | None \<Rightarrow> if is_Exception e then Inr () else Inl e,
      w\<lparr>calls := calls w @
          [SyncPlaywrightEnter, Launch True, NewPage, Goto ''http://localhost:8081'' 60000,
           ToBeVisible (GetByText ''Nadar'') 30000, Print ''Capturing Landing Screen...'',
           Screenshot screenshot_path None] @
          (if is_Exception e then [Print (error_message e)] else []) @
          [Close] @ (if close_res env = None then [Print ''Browser closed.''] else []) @
          [SyncPlaywrightExit],
        browser_running := False\<rparr>)"
  by (simp add: prim_defs error_message_def screenshot_path_def split: option.splits)

lemma run_screenshot_returns:
  "launch_res env = None \<Longrightarrow> new_page_res env = None \<Longrightarrow> goto_res env = None \<Longrightarrow>
   to_be_visible_res env = None \<Longrightarrow> screenshot_res env = Inr img \<Longrightarrow>
   run_verification env w =
     (case close_res env of Some e' \<Rightarrow> Inl e' | None \<Rightarrow> Inr (),
      w\<lparr>calls := calls w @
          [SyncPlaywrightEnter, Launch True, NewPage, Goto ''http://localhost:8081'' 60000,
           ToBeVisible (GetByText ''Nadar'') 30000, Print ''Capturing Landing Screen...'',
           Screenshot screenshot_path None, Print ''Landing Screen captured.'', Close] @
          (if close_res env = None then [Print ''Browser closed.''] else []) @
          [SyncPlaywrightExit],
        files := (files w)(screenshot_path \<mapsto> img),
        dirs := dirs w \<union> set (parent_dirs screenshot_path),
        browser_running := False\<rparr>)"
  by (simp add: prim_defs write_file_def screenshot_path_def split: option.splits)

lemmas run_paths = run_launch_raises run_new_page_raises run_goto_raises
  run_to_be_visible_raises run_screenshot_raises run_screenshot_returns

lemma outcome_cases:
  obtains (launch) e where "launch_res env = Some e"
  | (new_page) e where "launch_res env = None" "new_page_res env = Some e"
  | (goto) e where "launch_res env = None" "new_page_res env = None" "goto_res env = Some e"
  | (visible) e where "launch_res env = None" "new_page_res env = None" "goto_res env = None"
      "to_be_visible_res env = Some e"
  | (capture) e where "launch_res env = None" "new_page_res env = None" "goto_res env = None"
      "to_be_visible_res env = None" "screenshot_res env = Inl e"
  | (captured) img where "launch_res env = None" "new_page_res env = None"
      "goto_res env = None" "to_be_visible_res env = None" "screenshot_res env = Inr img"
  by (cases "launch_res env"; cases "new_page_res env"; cases "goto_res env";
      cases "to_be_visible_res env"; cases "screenshot_res env") auto

lemma parent_dirs_screenshot_path:
  "parent_dirs screenshot_path = [''jules-scratch'', ''jules-scratch/verification'']"
  unfolding screenshot_path_def parent_dirs_def by code_simp


section \<open>Exceptions of the launch and of the new page\<close>

text \<open>
  Claim C7. The launch and the creation of the page stand before the \<open>try\<close> statement.
  When either raises, the exception itself leaves \<open>run_verification\<close>, nothing has been
  printed (so the message of the handler has not), and the script run as the main program
  ends with a non-zero exit status.
\<close>

theorem launch_or_new_page_exception_propagates:
  assumes "launch_res env = Some e \<or> (launch_res env = None \<and> new_page_res env = Some e)"
  shows "raised env w = Some e \<and> stdout env w = [] \<and>
         exit_status (script ''__main__'' env w) \<noteq> 0"
  using assms
  by (auto simp: obs_defs script_def exit_status_def run_launch_raises run_new_page_raises)

theorem launch_or_new_page_exception_propagates_witness:
  "launch_res chromium_missing = Some (PyException ''Error'' ''Executable does not exist'') \<and>
   raised chromium_missing initial_world
     = Some (PyException ''Error'' ''Executable does not exist'') \<and>
   stdout chromium_missing initial_world = [] \<and>
   exit_status (script ''__main__'' chromium_missing initial_world) \<noteq> 0"
  using launch_or_new_page_exception_propagates
    [of chromium_missing "PyException ''Error'' ''Executable does not exist''" initial_world]
  by (simp add: chromium_missing_def)


section \<open>The handler\<close>

text \<open>
  Claim C1, as stated, fails: the clause is \<open>except Exception\<close>, and a
  \<open>KeyboardInterrupt\<close> raised while the navigation waits is not an \<open>Exception\<close>. It
  passes the handler, no message about it is printed, the \<open>finally\<close> block runs, and it
  reaches the caller.
\<close>

theorem keyboard_interrupt_not_caught:
  "goto_res interrupted = Some KeyboardInterrupt \<and>
   raised interrupted initial_world = Some KeyboardInterrupt \<and>
   stdout interrupted initial_world = [''Browser closed.'']"
  by (simp add: obs_defs run_goto_raises interrupted_def initial_world_def)

text \<open>
  Claim C1, amended. Let \<open>e\<close> be the exception raised by the navigation, by the
  visibility wait or by the capture. When \<open>e\<close> is an instance of \<open>Exception\<close>, it is
  caught: the handler prints its one line, which is the fixed words followed by the
  message of \<open>e\<close>, and \<open>e\<close> is not raised again: what leaves \<open>run_verification\<close> is
  what \<open>browser.close()\<close> raises in the \<open>finally\<close> block, and nothing when it returns.
  When \<open>e\<close> is not an instance of \<open>Exception\<close>, it is not caught: the handler prints
  nothing, the \<open>finally\<close> block runs, and \<open>e\<close> reaches the caller, unless
  \<open>browser.close()\<close> raises, whose exception then takes its place. In both cases nothing
  is tried again: the steps of the run are the steps up to the one that raised, each once,
  \<open>browser.close()\<close> is called once, and no call occurs twice.
\<close>

theorem exception_caught_printed_not_reraised:
  assumes "launch_res env = None" and "new_page_res env = None"
    and "goto_res env = Some e \<or>
         (goto_res env = None \<and> to_be_visible_res env = Some e) \<or>
         (goto_res env = None \<and> to_be_visible_res env = None \<and> screenshot_res env = Inl e)"
  shows "(is_Exception e \<longrightarrow>
            filter is_error_print (run_calls env w) = [Print (error_message e)] \<and>
            error_message e \<in> set (stdout env w) \<and>
            raised env w = close_res env) \<and>
         (\<not> is_Exception e \<longrightarrow>
            filter is_error_print (run_calls env w) = [] \<and>
            raised env w = (case close_res env of None \<Rightarrow> Some e | Some e' \<Rightarrow> Some e')) \<and>
         filter is_step (run_calls env w) =
           (if goto_res env \<noteq> None
            then [Launch True, NewPage, Goto ''http://localhost:8081'' 60000]
            else if to_be_visible_res env \<noteq> None
            then [Launch True, NewPage, Goto ''http://localhost:8081'' 60000,
                  ToBeVisible (GetByText ''Nadar'') 30000]
            else [Launch True, NewPage, Goto ''http://localhost:8081'' 60000,
                  ToBeVisible (GetByText ''Nadar'') 30000,
                  Screenshot ''jules-scratch/verification/landing_screen.png'' None]) \<and>
         filter (\<lambda>c. c = Close) (run_calls env w) = [Close] \<and>
         distinct (run_calls env w)"
proof -
  consider (goto) "goto_res env = Some e"
    | (visible) "goto_res env = None" "to_be_visible_res env = Some e"
    | (capture) "goto_res env = None" "to_be_visible_res env = None"
        "screenshot_res env = Inl e"
    using assms(3) by auto
  then show ?thesis
  proof cases
    case goto
    with assms(1,2) show ?thesis
      by (auto simp: obs_defs run_goto_raises error_message_def split: option.splits)
  next
    case visible
    with assms(1,2) show ?thesis
      by (auto simp: obs_defs run_to_be_visible_raises error_message_def
          split: option.splits)
  next
    case capture
    with assms(1,2) show ?thesis
      by (auto simp: obs_defs run_screenshot_raises error_message_def screenshot_path_def
          split: option.splits)
  qed
qed

theorem exception_caught_printed_not_reraised_witness:
  "launch_res server_down = None \<and> new_page_res server_down = None \<and>
   goto_res server_down = Some (PyException ''Error'' ''net::ERR_CONNECTION_REFUSED'') \<and>
   is_Exception (PyException ''Error'' ''net::ERR_CONNECTION_REFUSED'') \<and>
   filter is_error_print (run_calls server_down initial_world) =
     [Print ''An error occurred during Playwright execution: net::ERR_CONNECTION_REFUSED''] \<and>
   raised server_down initial_world = None \<and>
   filter is_step (run_calls server_down initial_world) =
     [Launch True, NewPage, Goto ''http://localhost:8081'' 60000] \<and>
   filter (\<lambda>c. c = Close) (run_calls server_down initial_world) = [Close]"
  using exception_caught_printed_not_reraised
    [of server_down "PyException ''Error'' ''net::ERR_CONNECTION_REFUSED''" initial_world]
  by (simp add: server_down_def error_message_def)


section \<open>Closing the browser\<close>




section \<open>The order of the steps\<close>

text \<open>
  Claim C3, as stated, fails: the exit into the handler is not the only way out of the
  order of the steps, and \<open>browser.close()\<close> does not follow every failure. When the
  launch raises, the run leaves the function at once: the handler prints nothing,
  \<open>browser.close()\<close> is not called, and the exception reaches the caller.
\<close>

theorem launch_failure_bypasses_handler:
  "launch_res chromium_missing = Some (PyException ''Error'' ''Executable does not exist'') \<and>
   filter is_step (run_calls chromium_missing initial_world) = [Launch True] \<and>
   filter is_error_print (run_calls chromium_missing initial_world) = [] \<and>
   Close \<notin> set (run_calls chromium_missing initial_world) \<and>
   raised chromium_missing initial_world
     = Some (PyException ''Error'' ''Executable does not exist'')"
  by (simp add: obs_defs run_launch_raises chromium_missing_def initial_world_def)

text \<open>
  Claim C3, amended. The steps of a run are an initial part of the fixed sequence: launch
  headless, new page, navigation to \<open>http://localhost:8081\<close>, wait for the text
  \<open>Nadar\<close>, capture. The launch is always attempted, and each later step is attempted
  exactly when all the steps before it returned; so the capture is attempted exactly when
  the wait succeeded. The order is left in one of three ways. An exception of the launch
  or of \<open>new_page\<close> leaves the function at once, without the handler and without
  \<open>browser.close()\<close>. An instance of \<open>Exception\<close> raised by the navigation, the wait or
  the capture enters the handler, whose one line is directly followed by the cleanup and
  by nothing else. Any other exception raised by them skips the handler and goes to the
  cleanup, as does the run in which every step returned. Once the page was opened the
  cleanup, \<open>browser.close()\<close>, always runs, after every step; and the exit of the
  \<open>sync_playwright\<close> scope is the last call of every run.
\<close>

theorem steps_in_fixed_linear_order:
  "prefix (filter is_step (run_calls env w)) fixed_steps \<and>
   Launch True \<in> set (run_calls env w) \<and>
   (NewPage \<in> set (run_calls env w) \<longleftrightarrow> launch_res env = None) \<and>
   (Goto ''http://localhost:8081'' 60000 \<in> set (run_calls env w)
      \<longleftrightarrow> launch_res env = None \<and> new_page_res env = None) \<and>
   (ToBeVisible (GetByText ''Nadar'') 30000 \<in> set (run_calls env w)
      \<longleftrightarrow> launch_res env = None \<and> new_page_res env = None \<and> goto_res env = None) \<and>
   (Screenshot ''jules-scratch/verification/landing_screen.png'' None
        \<in> set (run_calls env w)
      \<longleftrightarrow> launch_res env = None \<and> new_page_res env = None \<and> goto_res env = None \<and>
          to_be_visible_res env = None) \<and>
   length (filter is_error_print (run_calls env w)) \<le> 1 \<and>
   filter is_step (dropWhile (\<lambda>c. \<not> is_error_print c) (run_calls env w)) = [] \<and>
   last (run_calls env w) = SyncPlaywrightExit \<and>
   (launch_res env \<noteq> None \<or> new_page_res env \<noteq> None \<longrightarrow>
      filter is_error_print (run_calls env w) = [] \<and>
      Close \<notin> set (run_calls env w) \<and>
      raised env w \<noteq> None) \<and>
   (launch_res env = None \<and> new_page_res env = None \<longrightarrow>
      Close \<in> set (run_calls env w) \<and>
      dropWhile (\<lambda>c. c \<noteq> Close) (run_calls env w) =
        Close # (if close_res env = None then [Print ''Browser closed.''] else []) @
        [SyncPlaywrightExit]) \<and>
   (launch_res env = None \<and> new_page_res env = None \<and>
    (goto_res env = Some e \<or>
     (goto_res env = None \<and> to_be_visible_res env = Some e) \<or>
     (goto_res env = None \<and> to_be_visible_res env = None \<and> screenshot_res env = Inl e))
    \<longrightarrow>
      (is_Exception e \<longrightarrow>
         dropWhile (\<lambda>c. \<not> is_error_print c) (run_calls env w) =
           Print (error_message e) # Close #
           (if close_res env = None then [Print ''Browser closed.''] else []) @
           [SyncPlaywrightExit]) \<and>
      (\<not> is_Exception e \<longrightarrow> filter is_error_print (run_calls env w) = [])) \<and>
   (launch_res env = None \<and> new_page_res env = None \<and> goto_res env = None \<and>
    to_be_visible_res env = None \<and> screenshot_res env = Inr img \<longrightarrow>
      filter is_error_print (run_calls env w) = [] \<and>
      filter is_step (run_calls env w) = fixed_steps)"
proof (cases env rule: outcome_cases)
  case (launch e')
  then show ?thesis
    by (simp add: obs_defs run_launch_raises fixed_steps_def)
next
  case (new_page e')
  then show ?thesis
    by (simp add: obs_defs run_new_page_raises fixed_steps_def)
next
  case (goto e')
  then show ?thesis
    by (simp add: obs_defs run_goto_raises fixed_steps_def error_message_def)
next
  case (visible e')
  then show ?thesis
    by (simp add: obs_defs run_to_be_visible_raises fixed_steps_def error_message_def)
next
  case (capture e')
  then show ?thesis
    by (simp add: obs_defs run_screenshot_raises fixed_steps_def error_message_def
        screenshot_path_def)
next
  case (captured img')
  then show ?thesis
    by (simp add: obs_defs run_screenshot_returns fixed_steps_def screenshot_path_def)
qed

theorem steps_in_fixed_linear_order_witness:
  "launch_res marker_missing = None \<and> new_page_res marker_missing = None \<and>
   goto_res marker_missing = None \<and>
   to_be_visible_res marker_missing
     = Some (PyException ''AssertionError'' ''Locator expected to be visible'') \<and>
   filter is_step (run_calls marker_missing initial_world) =
     [Launch True, NewPage, Goto ''http://localhost:8081'' 60000,
      ToBeVisible (GetByText ''Nadar'') 30000] \<and>
   Screenshot ''jules-scratch/verification/landing_screen.png'' None
     \<notin> set (run_calls marker_missing initial_world) \<and>
   dropWhile (\<lambda>c. \<not> is_error_print c) (run_calls marker_missing initial_world) =
     [Print ''An error occurred during Playwright execution: Locator expected to be visible'',
      Close, Print ''Browser closed.'', SyncPlaywrightExit]"
  using steps_in_fixed_linear_order
    [of marker_missing initial_world
        "PyException ''AssertionError'' ''Locator expected to be visible''"]
  by (simp add: marker_missing_def obs_defs run_paths initial_world_def error_message_def)


section \<open>The capture\<close>

text \<open>
  Claim C4, as stated, fails: the source passes \<open>path\<close> alone to \<open>page.screenshot\<close>.
  No \<open>full_page\<close> argument is given, so the capture is the library's default, the
  viewport, and not the full page.
\<close>

theorem screenshot_is_not_full_page:
  "to_be_visible_res happy_path = None \<and>
   Screenshot ''jules-scratch/verification/landing_screen.png'' None
     \<in> set (run_calls happy_path initial_world) \<and>
   filter captures_full_page (run_calls happy_path initial_world) = []"
  by (simp add: obs_defs run_paths happy_path_def initial_world_def screenshot_path_def)

text \<open>
  Claim C4, amended: when the visibility wait succeeds, \<open>run_verification\<close> asks for one
  capture, with the fixed relative path \<open>jules-scratch/verification/landing_screen.png\<close>
  and without \<open>full_page\<close> (the library's default extent, the viewport). When the capture
  returns, the image is in the file at that path and the parent directories of the path
  exist; both are the work of the library's file write.
\<close>

theorem screenshot_written_to_fixed_path:
  assumes "launch_res env = None" and "new_page_res env = None" and "goto_res env = None"
    and "to_be_visible_res env = None"
  shows "filter is_screenshot (run_calls env w) =
           [Screenshot ''jules-scratch/verification/landing_screen.png'' None] \<and>
         filter captures_full_page (run_calls env w) = [] \<and>
         (\<forall>img. screenshot_res env = Inr img \<longrightarrow>
            files (snd (run_verification env w))
              ''jules-scratch/verification/landing_screen.png'' = Some img \<and>
            ''jules-scratch'' \<in> dirs (snd (run_verification env w)) \<and>
            ''jules-scratch/verification'' \<in> dirs (snd (run_verification env w)))"
  using assms
  by (cases env rule: outcome_cases)
     (simp_all add: obs_defs run_paths parent_dirs_screenshot_path,
      simp_all add: screenshot_path_def)

theorem screenshot_written_to_fixed_path_witness:
  "launch_res happy_path = None \<and> new_page_res happy_path = None \<and>
   goto_res happy_path = None \<and> to_be_visible_res happy_path = None \<and>
   screenshot_res happy_path = Inr png \<and>
   filter is_screenshot (run_calls happy_path initial_world) =
     [Screenshot ''jules-scratch/verification/landing_screen.png'' None] \<and>
   files (snd (run_verification happy_path initial_world))
     ''jules-scratch/verification/landing_screen.png'' = Some png \<and>
   ''jules-scratch/verification'' \<in> dirs (snd (run_verification happy_path initial_world))"
  using screenshot_written_to_fixed_path [of happy_path initial_world]
  by (simp add: happy_path_def)


section \<open>The time bounds\<close>





section \<open>The exit status\<close>

text \<open>
  Claim C6, as stated, fails: not every run of the script as the main program ends with
  status 0. When the browser cannot be launched, the exception leaves \<open>run_verification\<close>
  uncaught and the interpreter ends with status 1.
\<close>

theorem launch_failure_exit_status_one:
  "launch_res chromium_missing = Some (PyException ''Error'' ''Executable does not exist'') \<and>
   exit_status (script ''__main__'' chromium_missing initial_world) = 1"
  by (simp add: exit_status_def script_def run_launch_raises chromium_missing_def)

text \<open>
  Claim C6, amended: for every run of the script as the main program in which the launch,
  \<open>new_page\<close> and \<open>browser.close()\<close> return, the exit status is 0, on the happy path and
  when the navigation, the wait or the capture fails with an error that the handler
  catches (anything but a \<open>KeyboardInterrupt\<close>): the handler never sets a non-zero status.
  When the launch, \<open>new_page\<close> or \<open>browser.close()\<close> raises, the exit status is not 0.
\<close>

theorem exit_status_zero_when_failures_caught:
  "(launch_res env = None \<and> new_page_res env = None \<and> close_res env = None \<and>
    goto_res env \<noteq> Some KeyboardInterrupt \<and>
    to_be_visible_res env \<noteq> Some KeyboardInterrupt \<and>
    screenshot_res env \<noteq> Inl KeyboardInterrupt
      \<longrightarrow> exit_status (script ''__main__'' env w) = 0) \<and>
   (launch_res env \<noteq> None \<or> new_page_res env \<noteq> None \<or> close_res env \<noteq> None
      \<longrightarrow> exit_status (script ''__main__'' env w) \<noteq> 0)"
proof (cases env rule: outcome_cases)
  case (goto e)
  then show ?thesis
    by (cases e) (auto simp: exit_status_def script_def run_paths split: option.splits)
next
  case (visible e)
  then show ?thesis
    by (cases e) (auto simp: exit_status_def script_def run_paths split: option.splits)
next
  case (capture e)
  then show ?thesis
    by (cases e) (auto simp: exit_status_def script_def run_paths split: option.splits)
qed (auto simp: exit_status_def script_def run_paths split: option.splits)

theorem exit_status_zero_when_failures_caught_witness:
  "launch_res marker_missing = None \<and> new_page_res marker_missing = None \<and>
   close_res marker_missing = None \<and>
   to_be_visible_res marker_missing
     = Some (PyException ''AssertionError'' ''Locator expected to be visible'') \<and>
   exit_status (script ''__main__'' marker_missing initial_world) = 0"
  using exit_status_zero_when_failures_caught [of marker_missing initial_world]
  by (simp add: marker_missing_def)


section \<open>A failed navigation or wait\<close>

text \<open>
  Claim C8. In every run in which the navigation or the visibility wait fails, the capture
  is not called, the files and directories are as they were before the run, and the
  message of the error (the server cannot be reached, the text never becomes visible)
  appears on the standard output after the words of the handler.
\<close>

theorem no_screenshot_after_failed_navigation_or_wait:
  assumes "launch_res env = None" and "new_page_res env = None"
    and "goto_res env = Some e \<or> (goto_res env = None \<and> to_be_visible_res env = Some e)"
  shows "filter is_screenshot (run_calls env w) = [] \<and>
         files (snd (run_verification env w)) = files w \<and>
         dirs (snd (run_verification env w)) = dirs w \<and>
         (\<forall>cls msg. e = PyException cls msg \<longrightarrow>
            (''An error occurred during Playwright execution: '' @ msg)
              \<in> set (stdout env w))"
  using assms
  by (auto simp: obs_defs run_paths error_message_def)

theorem no_screenshot_after_failed_navigation_or_wait_witness:
  "launch_res marker_missing = None \<and> new_page_res marker_missing = None \<and>
   goto_res marker_missing = None \<and>
   to_be_visible_res marker_missing
     = Some (PyException ''AssertionError'' ''Locator expected to be visible'') \<and>
   filter is_screenshot (run_calls marker_missing initial_world) = [] \<and>
   files (snd (run_verification marker_missing initial_world)) = files initial_world \<and>
   ''An error occurred during Playwright execution: Locator expected to be visible''
     \<in> set (stdout marker_missing initial_world)"
  using no_screenshot_after_failed_navigation_or_wait
    [of marker_missing "PyException ''AssertionError'' ''Locator expected to be visible''"
        initial_world]
  by (simp add: marker_missing_def)


section \<open>The progress messages\<close>

text \<open>
  Claim C9. Once the wait has succeeded, \<open>Capturing Landing Screen...\<close> is printed
  immediately before the capture. When the capture returns, \<open>Landing Screen captured.\<close>
  is printed immediately after it. When the capture raises, the first message has been
  printed and the second is not.
\<close>

theorem progress_messages_around_capture:
  assumes "launch_res env = None" and "new_page_res env = None" and "goto_res env = None"
    and "to_be_visible_res env = None"
  shows "(\<forall>img. screenshot_res env = Inr img \<longrightarrow>
            sublist [Print ''Capturing Landing Screen...'',
                     Screenshot ''jules-scratch/verification/landing_screen.png'' None,
                     Print ''Landing Screen captured.''] (run_calls env w)) \<and>
         (\<forall>e. screenshot_res env = Inl e \<longrightarrow>
            sublist [Print ''Capturing Landing Screen...'',
                     Screenshot ''jules-scratch/verification/landing_screen.png'' None]
                    (run_calls env w) \<and>
            ''Capturing Landing Screen...'' \<in> set (stdout env w) \<and>
            ''Landing Screen captured.'' \<notin> set (stdout env w))"
proof (cases env rule: outcome_cases)
  case (capture e)
  have "run_calls env w =
      [SyncPlaywrightEnter, Launch True, NewPage, Goto ''http://localhost:8081'' 60000,
       ToBeVisible (GetByText ''Nadar'') 30000] @
      [Print ''Capturing Landing Screen...'', Screenshot screenshot_path None] @
      ((if is_Exception e then [Print (error_message e)] else []) @
       [Close] @ (if close_res env = None then [Print ''Browser closed.''] else []) @
       [SyncPlaywrightExit])"
    using capture by (simp add: obs_defs run_paths)
  then have "sublist [Print ''Capturing Landing Screen...'', Screenshot screenshot_path None]
      (run_calls env w)"
    unfolding sublist_def by blast
  moreover have "''Capturing Landing Screen...'' \<in> set (stdout env w)"
    and "''Landing Screen captured.'' \<notin> set (stdout env w)"
    using capture by (simp_all add: obs_defs run_paths error_message_def)
  ultimately show ?thesis
    using capture by (simp add: screenshot_path_def)
next
  case (captured img)
  have "run_calls env w =
      [SyncPlaywrightEnter, Launch True, NewPage, Goto ''http://localhost:8081'' 60000,
       ToBeVisible (GetByText ''Nadar'') 30000] @
      [Print ''Capturing Landing Screen...'', Screenshot screenshot_path None,
       Print ''Landing Screen captured.''] @
      (Close # (if close_res env = None then [Print ''Browser closed.''] else []) @
       [SyncPlaywrightExit])"
    using captured by (simp add: obs_defs run_paths)
  then have "sublist [Print ''Capturing Landing Screen...'', Screenshot screenshot_path None,
      Print ''Landing Screen captured.''] (run_calls env w)"
    unfolding sublist_def by blast
  then show ?thesis
    using captured by (simp add: screenshot_path_def)
qed (insert assms, simp_all)

theorem progress_messages_around_capture_witness:
  "launch_res capture_fails = None \<and> new_page_res capture_fails = None \<and>
   goto_res capture_fails = None \<and> to_be_visible_res capture_fails = None \<and>
   screenshot_res capture_fails = Inl (PyException ''Error'' ''Page.screenshot: Target crashed'') \<and>
   sublist [Print ''Capturing Landing Screen...'',
            Screenshot ''jules-scratch/verification/landing_screen.png'' None]
           (run_calls capture_fails initial_world) \<and>
   ''Capturing Landing Screen...'' \<in> set (stdout capture_fails initial_world) \<and>
   ''Landing Screen captured.'' \<notin> set (stdout capture_fails initial_world)"
  using progress_messages_around_capture [of capture_fails initial_world]
  by (simp add: capture_fails_def)


section \<open>Two runs in a row\<close>

text \<open>
  Claim C10. When two runs in a row both reach a successful capture, both write to
  \<open>jules-scratch/verification/landing_screen.png\<close>; after the first run the file holds
  the first image, and after the second the files are those from before the first run
  with, at that one path, the image of the second run.
\<close>

theorem second_run_overwrites_screenshot:
  assumes "launch_res env1 = None" and "new_page_res env1 = None" and "goto_res env1 = None"
    and "to_be_visible_res env1 = None" and "screenshot_res env1 = Inr img1"
    and "launch_res env2 = None" and "new_page_res env2 = None" and "goto_res env2 = None"
    and "to_be_visible_res env2 = None" and "screenshot_res env2 = Inr img2"
  shows "filter is_screenshot (run_calls env1 w) =
           [Screenshot ''jules-scratch/verification/landing_screen.png'' None] \<and>
         filter is_screenshot (run_calls env2 (snd (run_verification env1 w))) =
           [Screenshot ''jules-scratch/verification/landing_screen.png'' None] \<and>
         files (snd (run_verification env1 w)) =
           (files w)(''jules-scratch/verification/landing_screen.png'' \<mapsto> img1) \<and>
         files (snd (run_verification env2 (snd (run_verification env1 w)))) =
           (files w)(''jules-scratch/verification/landing_screen.png'' \<mapsto> img2)"
proof -
  have first: "files (snd (run_verification env1 w)) = (files w)(screenshot_path \<mapsto> img1)"
    and calls1: "filter is_screenshot (run_calls env1 w) = [Screenshot screenshot_path None]"
    using assms(1-5) by (simp_all add: obs_defs run_screenshot_returns)
  have second: "files (snd (run_verification env2 w')) = (files w')(screenshot_path \<mapsto> img2)"
    and calls2: "filter is_screenshot (run_calls env2 w') = [Screenshot screenshot_path None]"
    for w'
    using assms(6-10) by (simp_all add: obs_defs run_screenshot_returns)
  show ?thesis
    using first calls1 second calls2 by (simp add: screenshot_path_def)
qed

theorem second_run_overwrites_screenshot_witness:
  "screenshot_res happy_path = Inr png \<and> screenshot_res happy_path_again = Inr png2 \<and>
   png \<noteq> png2 \<and>
   files (snd (run_verification happy_path initial_world))
     ''jules-scratch/verification/landing_screen.png'' = Some png \<and>
   files (snd (run_verification happy_path_again
       (snd (run_verification happy_path initial_world)))) =
     [''jules-scratch/verification/landing_screen.png'' \<mapsto> png2]"
  using second_run_overwrites_screenshot
    [of happy_path png happy_path_again png2 initial_world]
  by (simp add: happy_path_def happy_path_again_def png_def png2_def initial_world_def)

end
